theory Spec2Isabelle
  imports Main "HOL-Library.Sublist"
begin

section \<open>Python values\<close>

text \<open>
  The validator of \<^verbatim>\<open>geojson_validator/schema_validation.py\<close> walks a document that has
  already been decoded by \<^verbatim>\<open>json.loads\<close>: \<^verbatim>\<open>None\<close>, \<^verbatim>\<open>bool\<close>, \<^verbatim>\<open>int\<close>, \<^verbatim>\<open>float\<close>,
  \<^verbatim>\<open>str\<close>, \<^verbatim>\<open>list\<close> and \<^verbatim>\<open>dict\<close> with string keys. A dictionary is an association list in
  insertion order, read with \<open>map_of\<close>.

  The program observes two things of a float: whether it is zero (truthiness) and its
  \<^verbatim>\<open>repr\<close> (in an f-string and in \<^verbatim>\<open>str(...)\<close>). A float is represented by exactly these two
  observations, so no floating-point arithmetic is modelled.
\<close>

datatype pyfloat = PyFloat (float_is_zero: bool) (float_repr: string)

datatype json =
    JNull
  | JBool bool
  | JInt int
  | JFloat pyfloat
  | JStr string
  | JArr "json list"
  | JObj "(string \<times> json) list"

datatype py_error = AttributeError | KeyError | TypeError | IndexError

text \<open>Sequencing of computations that may raise: the first exception is propagated.\<close>

definition and_then :: "py_error + 'a \<Rightarrow> ('a \<Rightarrow> py_error + 'b) \<Rightarrow> py_error + 'b" where
  "and_then r f = (case r of Inl e \<Rightarrow> Inl e | Inr x \<Rightarrow> f x)"

text \<open>\<^verbatim>\<open>isinstance(v, dict)\<close>, \<^verbatim>\<open>isinstance(v, list)\<close>, \<^verbatim>\<open>isinstance(v, (int, float))\<close> (a
  \<^verbatim>\<open>bool\<close> is an \<^verbatim>\<open>int\<close> in Python) and \<^verbatim>\<open>isinstance(v, (str, int))\<close>.\<close>

fun is_dict :: "json \<Rightarrow> bool" where
  "is_dict (JObj kvs) = True"
| "is_dict v = False"

fun is_list :: "json \<Rightarrow> bool" where
  "is_list (JArr xs) = True"
| "is_list v = False"

fun is_int_or_float :: "json \<Rightarrow> bool" where
  "is_int_or_float (JInt i) = True"
| "is_int_or_float (JBool b) = True"
| "is_int_or_float (JFloat f) = True"
| "is_int_or_float v = False"

fun is_str_or_int :: "json \<Rightarrow> bool" where
  "is_str_or_int (JStr s) = True"
| "is_str_or_int (JInt i) = True"
| "is_str_or_int (JBool b) = True"
| "is_str_or_int v = False"

text \<open>Truth value of a Python object, as tested by \<^verbatim>\<open>if v:\<close> and \<^verbatim>\<open>not v\<close>.\<close>

fun truthy :: "json \<Rightarrow> bool" where
  "truthy JNull = False"
| "truthy (JBool b) = b"
| "truthy (JInt i) = (i \<noteq> 0)"
| "truthy (JFloat f) = (\<not> float_is_zero f)"
| "truthy (JStr s) = (s \<noteq> [])"
| "truthy (JArr xs) = (xs \<noteq> [])"
| "truthy (JObj kvs) = (kvs \<noteq> [])"

text \<open>\<^verbatim>\<open>d.get(k)\<close>: the value, or \<^verbatim>\<open>None\<close> when the key is absent.\<close>

definition dict_get :: "(string \<times> json) list \<Rightarrow> string \<Rightarrow> json" where
  "dict_get d k = (case map_of d k of None \<Rightarrow> JNull | Some v \<Rightarrow> v)"

text \<open>\<^verbatim>\<open>type(v).__name__\<close>.\<close>

fun type_name :: "json \<Rightarrow> string" where
  "type_name JNull = ''NoneType''"
| "type_name (JBool b) = ''bool''"
| "type_name (JInt i) = ''int''"
| "type_name (JFloat f) = ''float''"
| "type_name (JStr s) = ''str''"
| "type_name (JArr xs) = ''list''"
| "type_name (JObj kvs) = ''dict''"

subsection \<open>Rendering: \<^verbatim>\<open>str\<close> and \<^verbatim>\<open>repr\<close>\<close>

definition digit_char :: "nat \<Rightarrow> char" where
  "digit_char n = char_of (48 + n)"

function str_nat :: "nat \<Rightarrow> string" where
  "str_nat n = (if n < 10 then [digit_char n] else str_nat (n div 10) @ [digit_char (n mod 10)])"
  by pat_completeness auto
termination
  by (relation "measure id") auto

declare str_nat.simps [simp del]

definition str_int :: "int \<Rightarrow> string" where
  "str_int i = (if i < 0 then CHR ''-'' # str_nat (nat (- i)) else str_nat (nat i))"

definition hex_digit :: "nat \<Rightarrow> char" where
  "hex_digit n = (if n < 10 then char_of (48 + n) else char_of (87 + n))"

text \<open>
  \<^verbatim>\<open>repr\<close> of a string: double quotes are chosen when the string holds a single quote and
  no double quote; the chosen quote and the backslash are escaped, tab, newline and
  carriage return are written symbolically and the other control characters as
  \<^verbatim>\<open>\xhh\<close>. Characters are bytes here (a non-ASCII code point is its UTF-8 bytes, left as
  they are, which is what Python does for a printable one).
\<close>

definition repr_char :: "char \<Rightarrow> char \<Rightarrow> string" where
  "repr_char q c =
     (if c = q \<or> c = CHR 0x5C then [CHR 0x5C, c]
      else if c = CHR 0x09 then [CHR 0x5C, CHR ''t'']
      else if c = CHR 0x0A then [CHR 0x5C, CHR ''n'']
      else if c = CHR 0x0D then [CHR 0x5C, CHR ''r'']
      else if (of_char c :: nat) < 32 \<or> (of_char c :: nat) = 127
        then [CHR 0x5C, CHR ''x'', hex_digit (of_char c div 16), hex_digit (of_char c mod 16)]
      else [c])"

definition repr_str :: "string \<Rightarrow> string" where
  "repr_str s =
     (let q = (if CHR 0x27 \<in> set s \<and> CHR 0x22 \<notin> set s then CHR 0x22 else CHR 0x27)
      in q # concat (map (repr_char q) s) @ [q])"

fun join_str :: "string \<Rightarrow> string list \<Rightarrow> string" where
  "join_str sep [] = []"
| "join_str sep [x] = x"
| "join_str sep (x # y # ys) = x @ sep @ join_str sep (y # ys)"

fun py_repr :: "json \<Rightarrow> string" where
  "py_repr JNull = ''None''"
| "py_repr (JBool b) = (if b then ''True'' else ''False'')"
| "py_repr (JInt i) = str_int i"
| "py_repr (JFloat f) = float_repr f"
| "py_repr (JStr s) = repr_str s"
| "py_repr (JArr xs) = ''['' @ join_str '', '' (map py_repr xs) @ '']''"
| "py_repr (JObj kvs) =
     ''{'' @ join_str '', '' (map (\<lambda>kv. repr_str (fst kv) @ '': '' @ py_repr (snd kv)) kvs) @ ''}''"

text \<open>\<^verbatim>\<open>str(v)\<close>, also what an f-string field \<^verbatim>\<open>{v}\<close> renders: a string is itself, any other
  value is its \<^verbatim>\<open>repr\<close>.\<close>

definition py_str :: "json \<Rightarrow> string" where
  "py_str v = (case v of JStr s \<Rightarrow> s | _ \<Rightarrow> py_repr v)"

text \<open>\<^verbatim>\<open>s.split(sep)[0]\<close> for a non-empty separator: the part of \<open>s\<close> before the first
  occurrence of \<open>sep\<close>, all of \<open>s\<close> when there is none.\<close>

fun split_first :: "string \<Rightarrow> string \<Rightarrow> string" where
  "split_first sep [] = []"
| "split_first sep (c # cs) = (if prefix sep (c # cs) then [] else c # split_first sep cs)"

section \<open>The validator object\<close>

text \<open>
  An error report is a Python \<^verbatim>\<open>dict\<close> from the message text to the two lists
  \<^verbatim>\<open>"lines"\<close> and \<^verbatim>\<open>"features"\<close>; a \<^verbatim>\<open>dict\<close> keeps its keys in insertion order, so it is an
  association list with distinct keys. The fields of \<^verbatim>\<open>GeoJsonLint\<close> are the state.
\<close>

record error_entry =
  lines :: "nat option list"
  features :: "nat option list"

type_synonym report = "(string \<times> error_entry) list"

record lint_state =
  check_crs :: bool
  feature_idx :: "nat option"
  line_map :: "(string \<Rightarrow> nat option) option"
  errors :: report

text \<open>\<^verbatim>\<open>GeoJsonLint.__init__\<close>.\<close>

definition GeoJsonLint :: "bool \<Rightarrow> lint_state" where
  "GeoJsonLint crs = \<lparr>check_crs = crs, feature_idx = None, line_map = None, errors = []\<rparr>"

definition GEOMETRY_TYPES :: "string list" where
  "GEOMETRY_TYPES =
     [''FeatureCollection'', ''Feature'', ''Point'', ''LineString'', ''Polygon'',
      ''MultiPoint'', ''MultiLineString'', ''MultiPolygon'', ''GeometryCollection'']"

definition GEOJSON_TYPES :: "string list" where
  "GEOJSON_TYPES = [''FeatureCollection'', ''Feature''] @ GEOMETRY_TYPES"

text \<open>\<^verbatim>\<open>_add_error\<close> on the dictionary: a new message is appended with singleton lists, a
  known one gets the line and the current feature index appended to its lists.\<close>

fun add_entry :: "string \<Rightarrow> nat option \<Rightarrow> nat option \<Rightarrow> report \<Rightarrow> report" where
  "add_entry msg line fidx [] = [(msg, \<lparr>lines = [line], features = [fidx]\<rparr>)]"
| "add_entry msg line fidx ((k, e) # es) =
     (if k = msg
      then (k, e\<lparr>lines := lines e @ [line], features := features e @ [fidx]\<rparr>) # es
      else (k, e) # add_entry msg line fidx es)"

definition add_error :: "string \<Rightarrow> nat option \<Rightarrow> lint_state \<Rightarrow> lint_state" where
  "add_error message line st = st\<lparr>errors := add_entry message line (feature_idx st) (errors st)\<rparr>"

text \<open>\<^verbatim>\<open>_get_line_number\<close>: \<^verbatim>\<open>self.line_map.get(path)\<close> raises \<^verbatim>\<open>AttributeError\<close> while the
  line map is still \<^verbatim>\<open>None\<close>; the stored lines are zero-indexed.\<close>

definition get_line_number :: "lint_state \<Rightarrow> string \<Rightarrow> py_error + nat option" where
  "get_line_number st path =
     (case line_map st of
        None \<Rightarrow> Inl AttributeError
      | Some m \<Rightarrow> Inr (case m path of None \<Rightarrow> None | Some l \<Rightarrow> Some (l + 1)))"

text \<open>The recurring call \<^verbatim>\<open>self._add_error(message, self._get_line_number(path))\<close>.\<close>

definition add_error_at :: "string \<Rightarrow> string \<Rightarrow> lint_state \<Rightarrow> py_error + lint_state" where
  "add_error_at message path st =
     and_then (get_line_number st path) (\<lambda>line. Inr (add_error message line st))"

section \<open>The gates\<close>

text \<open>\<^verbatim>\<open>_is_invalid_type_member\<close>. The result is the returned flag and the state.\<close>

definition is_invalid_type_member ::
  "json \<Rightarrow> string list \<Rightarrow> string \<Rightarrow> lint_state \<Rightarrow> py_error + (bool \<times> lint_state)" where
  "is_invalid_type_member obj allowed_types path st =
     (case obj of
        JObj kvs \<Rightarrow>
          (let obj_type = dict_get kvs ''type'' in
           if \<not> truthy obj_type then
             and_then (add_error_at ''Missing 'type' member'' (split_first ''/type'' path) st)
               (\<lambda>st'. Inr (True, st'))
           else if obj_type \<notin> set (map JStr allowed_types) then
             and_then
               (add_error_at
                  (''Invalid 'type' member, is '' @ [CHR 0x27] @ py_str obj_type @ [CHR 0x27]
                     @ '', must be one of '' @ py_repr (JArr (map JStr allowed_types)))
                  path st)
               (\<lambda>st'. Inr (True, st'))
           else Inr (False, st))
      | _ \<Rightarrow> Inr (True, st))"

text \<open>\<^verbatim>\<open>_is_invalid_property\<close>. Every caller passes a dictionary as \<open>obj\<close>.\<close>

definition is_invalid_property ::
  "(string \<times> json) list \<Rightarrow> string \<Rightarrow> string \<Rightarrow> string \<Rightarrow> lint_state
     \<Rightarrow> py_error + (bool \<times> lint_state)" where
  "is_invalid_property obj name type_str path st =
     (case map_of obj name of
        None \<Rightarrow>
          and_then
            (add_error_at ([CHR 0x22] @ name @ [CHR 0x22] @ '' member required'')
               (split_first (''/'' @ name) path) st)
            (\<lambda>st'. Inr (True, st'))
      | Some v \<Rightarrow>
          if type_str = ''array'' \<and> \<not> is_list v then
            and_then
              (add_error_at
                 ([CHR 0x22] @ name @ [CHR 0x22] @ '' member must be an array, but is a ''
                    @ type_name v @ '' instead'')
                 path st)
              (\<lambda>st'. Inr (True, st'))
          else if type_str = ''object'' \<and> \<not> is_dict v then
            (if name \<in> set [''geometry'', ''properties''] \<and> v = JNull then Inr (False, st)
             else
               and_then
                 (add_error_at
                    ([CHR 0x22] @ name @ [CHR 0x22]
                       @ '' member must be an object/dictionary, but is a ''
                       @ type_name v @ '' instead'')
                    path st)
                 (\<lambda>st'. Inr (True, st')))
          else Inr (False, st))"

section \<open>The validators\<close>

lemma and_then_cong [fundef_cong]:
  "r = r' \<Longrightarrow> (\<And>x. r' = Inr x \<Longrightarrow> f x = f' x) \<Longrightarrow> and_then r f = and_then r' f'"
  by (simp add: and_then_def split: sum.split)

text \<open>A \<^verbatim>\<open>for idx, x in enumerate(xs)\<close> loop whose body may raise.\<close>

fun for_enumerate ::
  "(nat \<Rightarrow> 'a \<Rightarrow> 's \<Rightarrow> py_error + 's) \<Rightarrow> 'a list \<Rightarrow> nat \<Rightarrow> 's \<Rightarrow> py_error + 's" where
  "for_enumerate body [] idx st = Inr st"
| "for_enumerate body (x # xs) idx st =
     and_then (body idx x st) (for_enumerate body xs (Suc idx))"

lemma for_enumerate_cong [fundef_cong]:
  "xs = ys \<Longrightarrow> (\<And>i x s. x \<in> set ys \<Longrightarrow> body i x s = body' i x s)
     \<Longrightarrow> for_enumerate body xs idx st = for_enumerate body' ys idx st"
proof (induction ys arbitrary: xs idx st)
  case Nil
  then show ?case by simp
next
  case (Cons y ys)
  have step: "for_enumerate body ys (Suc idx) s = for_enumerate body' ys (Suc idx) s" for s
    by (rule Cons.IH) (simp_all add: Cons.prems(2))
  show ?case
    by (simp add: Cons.prems step cong: and_then_cong)
qed

text \<open>\<^verbatim>\<open>_validate_position\<close>.\<close>

definition validate_position :: "json \<Rightarrow> string \<Rightarrow> lint_state \<Rightarrow> py_error + lint_state" where
  "validate_position coords path st =
     (case coords of
        JArr cs \<Rightarrow>
          and_then
            (if length cs < 2 \<or> length cs > 3
             then add_error_at ''Coordinate position must have exactly 2 or 3 values'' path st
             else Inr st)
            (\<lambda>st1.
               if \<not> list_all is_int_or_float cs
               then add_error_at ''Each element in a coordinate position must be a number'' path st1
               else Inr st1)
      | _ \<Rightarrow> add_error_at ''Coordinate position must be an array'' path st)"

text \<open>\<^verbatim>\<open>_validate_position_array\<close>: every element is validated against the same path.\<close>

fun validate_position_array ::
  "json \<Rightarrow> nat \<Rightarrow> string \<Rightarrow> lint_state \<Rightarrow> py_error + lint_state" where
  "validate_position_array coords 0 path st = validate_position coords path st"
| "validate_position_array coords (Suc depth) path st =
     (case coords of
        JArr ps \<Rightarrow> for_enumerate (\<lambda>idx p. validate_position_array p depth path) ps 0 st
      | _ \<Rightarrow> add_error_at ''Coordinates must be an array'' path st)"

lemma size_dict_value: "map_of kvs k = Some v \<Longrightarrow> size v < size (JObj kvs)"
  by (induction kvs) (auto split: if_splits)

lemma size_list_element: "x \<in> set xs \<Longrightarrow> size x < size (JArr xs)"
  by (induction xs) auto

text \<open>
  \<^verbatim>\<open>_validate_geometry\<close>. Once the type gate has returned \<^verbatim>\<open>False\<close> the object is a
  dictionary, and once the member gate has returned \<^verbatim>\<open>False\<close> the member is present and a
  list. The other branches of the case distinctions are never taken; they hold an
  exception, so that reaching one would show in the result (\<open>lint_returns\<close> below proves
  that \<^verbatim>\<open>lint\<close> never yields one).
\<close>

function validate_geometry :: "json \<Rightarrow> string \<Rightarrow> lint_state \<Rightarrow> py_error + lint_state" where
  "validate_geometry geometry path st =
     and_then (is_invalid_type_member geometry GEOMETRY_TYPES (path @ ''/type'') st)
       (\<lambda>(invalid, st1).
          if invalid then Inr st1
          else
            (case geometry of
               JObj kvs \<Rightarrow>
                 (let obj_type = dict_get kvs ''type'' in
                  if obj_type = JStr ''GeometryCollection'' then
                    and_then (is_invalid_property kvs ''geometries'' ''array'' path st1)
                      (\<lambda>(invalid, st2).
                         if invalid then Inr st2
                         else
                           (case map_of kvs ''geometries'' of
                              None \<Rightarrow> Inl KeyError
                            | Some (JArr geoms) \<Rightarrow>
                                for_enumerate
                                  (\<lambda>idx geom.
                                     validate_geometry geom (path @ ''/geometries/'' @ str_nat idx))
                                  geoms 0 st2
                            | Some _ \<Rightarrow> Inl TypeError))
                  else
                    and_then (is_invalid_property kvs ''coordinates'' ''array'' path st1)
                      (\<lambda>(invalid, st2).
                         if invalid then Inr st2
                         else
                           (case map_of kvs ''coordinates'' of
                              None \<Rightarrow> Inl KeyError
                            | Some coords \<Rightarrow>
                                if obj_type \<in> set (map JStr [''Point'']) then
                                  validate_position coords (path @ ''/coordinates'') st2
                                else if obj_type \<in> set (map JStr [''LineString'', ''MultiPoint'']) then
                                  validate_position_array coords 1 (path @ ''/coordinates'') st2
                                else if obj_type \<in> set (map JStr [''Polygon'', ''MultiLineString'']) then
                                  validate_position_array coords 2 (path @ ''/coordinates'') st2
                                else if obj_type \<in> set (map JStr [''MultiPolygon'']) then
                                  validate_position_array coords 3 (path @ ''/coordinates'') st2
                                else Inr st2)))
             | _ \<Rightarrow> Inl AttributeError))"
  by pat_completeness auto
termination
proof (relation "measure (\<lambda>(geometry, path, st). size geometry)")
  show "wf (measure (\<lambda>(geometry, path, st). size geometry))"
    by simp
next
  fix geometry :: json and path :: string and st :: lint_state
    and kvs :: "(string \<times> json) list" and geoms :: "json list" and geom :: json
    and v :: json and idx :: nat and s :: lint_state
  assume obj: "geometry = JObj kvs"
    and mem: "map_of kvs ''geometries'' = Some v" "v = JArr geoms"
    and el: "geom \<in> set geoms"
  from mem have "map_of kvs ''geometries'' = Some (JArr geoms)"
    by simp
  then have outer: "size (JArr geoms) < size (JObj kvs)"
    by (rule size_dict_value)
  have inner: "size geom < size (JArr geoms)"
    using el by (rule size_list_element)
  from inner outer have "size geom < size (JObj kvs)"
    by (rule less_trans)
  then show "((geom, path @ ''/geometries/'' @ str_nat idx, s), geometry, path, st)
      \<in> measure (\<lambda>(geometry, path, st). size geometry)"
    using obj by simp
qed

declare validate_geometry.simps [simp del]

text \<open>\<^verbatim>\<open>_validate_feature\<close>, on a dictionary. The flags of its three gates are not used.\<close>

definition validate_feature ::
  "(string \<times> json) list \<Rightarrow> string \<Rightarrow> lint_state \<Rightarrow> py_error + lint_state" where
  "validate_feature feature path st =
     and_then (is_invalid_type_member (JObj feature) [''Feature''] (path @ ''/type'') st)
       (\<lambda>(invalid1, st1).
          and_then
            (case map_of feature ''id'' of
               None \<Rightarrow> Inr st1
             | Some ident \<Rightarrow>
                 if \<not> is_str_or_int ident then
                   add_error_at
                     (''Feature '' @ [CHR 0x22] @ ''id'' @ [CHR 0x22]
                        @ '' member must be a string or int number'')
                     (path @ ''/id'') st1
                 else Inr st1)
            (\<lambda>st2.
               and_then
                 (is_invalid_property feature ''properties'' ''object'' (path @ ''/properties'') st2)
                 (\<lambda>(invalid3, st3).
                    and_then
                      (is_invalid_property feature ''geometry'' ''object'' (path @ ''/geometry'') st3)
                      (\<lambda>(invalid4, st4).
                         (let geom = dict_get feature ''geometry'' in
                          if truthy geom then validate_geometry geom (path @ ''/geometry'') st4
                          else Inr st4)))))"

text \<open>\<^verbatim>\<open>_validate_feature_collection\<close>, on a dictionary. The loop assigns
  \<^verbatim>\<open>self.feature_idx\<close> and nothing resets it afterwards.\<close>

definition validate_feature_collection ::
  "(string \<times> json) list \<Rightarrow> string \<Rightarrow> lint_state \<Rightarrow> py_error + lint_state" where
  "validate_feature_collection feature_collection path st =
     and_then
       (is_invalid_type_member (JObj feature_collection) [''FeatureCollection'']
          (path @ ''/type'') st)
       (\<lambda>(invalid1, st1).
          and_then
            (if check_crs st1 \<and> map_of feature_collection ''crs'' \<noteq> None then
               add_error_at
                 (''The newest GeoJSON specification defines GeoJSON as always ''
                    @ ''latitude/longitude, remove CRS (coordinate reference system) member'')
                 (path @ ''/crs'') st1
             else Inr st1)
            (\<lambda>st2.
               and_then
                 (is_invalid_property feature_collection ''features'' ''array''
                    (path @ ''/features'') st2)
                 (\<lambda>(invalid, st3).
                    if invalid then Inr st3
                    else
                      (case map_of feature_collection ''features'' of
                         None \<Rightarrow> Inl KeyError
                       | Some (JArr feats) \<Rightarrow>
                           for_enumerate
                             (\<lambda>idx feature s.
                                (let s1 = s\<lparr>feature_idx := Some idx\<rparr> in
                                 case feature of
                                   JObj kvs \<Rightarrow>
                                     validate_feature kvs (path @ ''/features/'' @ str_nat idx) s1
                                 | _ \<Rightarrow>
                                     add_error_at ''Every feature must be a dictionary/object.''
                                       (path @ ''/features/'' @ str_nat idx) s1))
                             feats 0 st3
                       | Some _ \<Rightarrow> Inl TypeError))))"

text \<open>\<^verbatim>\<open>_validate_geojson_root\<close>.\<close>

definition validate_geojson_root :: "json \<Rightarrow> lint_state \<Rightarrow> py_error + lint_state" where
  "validate_geojson_root obj st =
     (let root_path = [] in
      and_then (is_invalid_type_member obj GEOJSON_TYPES root_path st)
        (\<lambda>(invalid, st1).
           if invalid then Inr st1
           else
             (case obj of
                JObj kvs \<Rightarrow>
                  (let obj_type = dict_get kvs ''type'' in
                   if obj_type = JStr ''FeatureCollection'' then
                     validate_feature_collection kvs root_path st1
                   else if obj_type = JStr ''Feature'' then validate_feature kvs root_path st1
                   else if obj_type \<in> set (map JStr GEOMETRY_TYPES) then
                     validate_geometry obj root_path st1
                   else Inr st1)
              | _ \<Rightarrow> Inl AttributeError)))"

text \<open>
  \<^verbatim>\<open>GeoJsonLint.lint\<close>. The canonical text and its line map come from library code
  (\<^verbatim>\<open>json.dumps\<close> and \<^verbatim>\<open>json_source_map.calculate\<close>), which is not part of the repository:
  \<open>source_map\<close> is the map they yield for this document, from a path to the zero-indexed
  line where the value starts. The method returns \<^verbatim>\<open>self.errors\<close>, the dictionary held by
  the object itself, so the result is the new state and the returned report is its
  \<open>errors\<close> field. The interpreter's recursion limit is not modelled: the walk of a
  document is followed to its end however deep the document is.
\<close>

definition lint :: "(string \<Rightarrow> nat option) \<Rightarrow> json \<Rightarrow> lint_state \<Rightarrow> py_error + lint_state" where
  "lint source_map geojson_data st =
     (if \<not> is_dict geojson_data then
        Inr (add_error ''Root of GeoJSON must be an object/dictionary'' (Some 0) st)
      else validate_geojson_root geojson_data (st\<lparr>line_map := Some source_map\<rparr>))"

text \<open>The value that \<^verbatim>\<open>lint\<close> returns: the report, or the exception that ended the call.\<close>

definition lint_report ::
  "(string \<Rightarrow> nat option) \<Rightarrow> json \<Rightarrow> lint_state \<Rightarrow> py_error + report" where
  "lint_report source_map geojson_data st =
     (case lint source_map geojson_data st of Inl e \<Rightarrow> Inl e | Inr st' \<Rightarrow> Inr (errors st'))"

section \<open>The geometry checks\<close>

text \<open>
  \<^verbatim>\<open>geojsonfix/checks_problematic.py\<close>. Three of its functions work on the decoded geometry
  dictionary or ignore their argument; they are modelled with the Python operations they
  use. Indexing a string yields a one-character string (characters are bytes here).
\<close>

text \<open>\<^verbatim>\<open>v[key]\<close> for a string key.\<close>

fun getitem_key :: "json \<Rightarrow> string \<Rightarrow> py_error + json" where
  "getitem_key (JObj kvs) key = (case map_of kvs key of None \<Rightarrow> Inl KeyError | Some v \<Rightarrow> Inr v)"
| "getitem_key v key = Inl TypeError"

text \<open>\<^verbatim>\<open>v[0]\<close>. The keys of a decoded dictionary are strings, so \<^verbatim>\<open>0\<close> is never among them.\<close>

fun getitem_0 :: "json \<Rightarrow> py_error + json" where
  "getitem_0 (JArr xs) = (case xs of [] \<Rightarrow> Inl IndexError | x # rest \<Rightarrow> Inr x)"
| "getitem_0 (JStr s) = (case s of [] \<Rightarrow> Inl IndexError | c # rest \<Rightarrow> Inr (JStr [c]))"
| "getitem_0 (JObj kvs) = Inl KeyError"
| "getitem_0 v = Inl TypeError"

text \<open>\<^verbatim>\<open>v[:2]\<close>. A dictionary refuses a slice (\<^verbatim>\<open>TypeError\<close>, unhashable, up to Python 3.11).\<close>

fun slice_2 :: "json \<Rightarrow> py_error + json" where
  "slice_2 (JArr xs) = Inr (JArr (take 2 xs))"
| "slice_2 (JStr s) = Inr (JStr (take 2 s))"
| "slice_2 v = Inl TypeError"

text \<open>The items that \<^verbatim>\<open>for x in v\<close> visits, and \<^verbatim>\<open>len(v)\<close>.\<close>

fun iter_items :: "json \<Rightarrow> py_error + json list" where
  "iter_items (JArr xs) = Inr xs"
| "iter_items (JStr s) = Inr (map (\<lambda>c. JStr [c]) s)"
| "iter_items (JObj kvs) = Inr (map JStr (remdups (map fst kvs)))"
| "iter_items v = Inl TypeError"

fun py_len :: "json \<Rightarrow> py_error + nat" where
  "py_len (JArr xs) = Inr (length xs)"
| "py_len (JStr s) = Inr (length s)"
| "py_len (JObj kvs) = Inr (length (remdups (map fst kvs)))"
| "py_len v = Inl TypeError"

text \<open>\<^verbatim>\<open>s.split(c)\<close> for a one-character separator, and \<^verbatim>\<open>xs[1]\<close> on the list of pieces.\<close>

fun split_char :: "char \<Rightarrow> string \<Rightarrow> string list" where
  "split_char c [] = [[]]"
| "split_char c (x # xs) =
     (if x = c then [] # split_char c xs
      else (case split_char c xs of [] \<Rightarrow> [[x]] | p # ps \<Rightarrow> (x # p) # ps))"

fun getitem_1 :: "'a list \<Rightarrow> py_error + 'a" where
  "getitem_1 (x # y # rest) = Inr y"
| "getitem_1 xs = Inl IndexError"

text \<open>A list comprehension whose element expression may raise.\<close>

fun map_raising :: "('a \<Rightarrow> py_error + 'b) \<Rightarrow> 'a list \<Rightarrow> py_error + 'b list" where
  "map_raising f [] = Inr []"
| "map_raising f (x # xs) =
     and_then (f x) (\<lambda>y. and_then (map_raising f xs) (\<lambda>ys. Inr (y # ys)))"

text \<open>\<^verbatim>\<open>check_excessive_coordinate_precision\<close>.\<close>

definition check_excessive_coordinate_precision :: "json \<Rightarrow> py_error + json" where
  "check_excessive_coordinate_precision geometry =
     and_then (getitem_key geometry ''coordinates'')
       (\<lambda>coordinates.
          and_then (getitem_0 coordinates)
            (\<lambda>coords.
               and_then (slice_2 coords)
                 (\<lambda>first_two.
                    and_then (iter_items first_two)
                      (\<lambda>items.
                         and_then
                           (map_raising
                              (\<lambda>coord.
                                 and_then (getitem_0 coord)
                                   (\<lambda>x.
                                      and_then (getitem_1 (split_char CHR ''.'' (py_str x)))
                                        (\<lambda>decimals. Inr (length decimals > 6))))
                              items)
                           (\<lambda>flags. Inr (JBool (list_ex id flags)))))))"

text \<open>\<^verbatim>\<open>check_more_than_2d_coordinates\<close>. The two nested loops return \<^verbatim>\<open>True\<close> at the first
  item longer than 2; when they run to their end the function returns \<^verbatim>\<open>None\<close>.\<close>

fun any_longer_than_2 :: "json list \<Rightarrow> py_error + bool" where
  "any_longer_than_2 [] = Inr False"
| "any_longer_than_2 (coord # rest) =
     and_then (py_len coord) (\<lambda>n. if n > 2 then Inr True else any_longer_than_2 rest)"

fun any_ring_longer_than_2 :: "json list \<Rightarrow> py_error + bool" where
  "any_ring_longer_than_2 [] = Inr False"
| "any_ring_longer_than_2 (ring # rest) =
     and_then (iter_items ring)
       (\<lambda>items.
          and_then (any_longer_than_2 items)
            (\<lambda>found. if found then Inr True else any_ring_longer_than_2 rest))"

definition check_more_than_2d_coordinates :: "json \<Rightarrow> bool \<Rightarrow> py_error + json" where
  "check_more_than_2d_coordinates geometry check_all_coordinates =
     and_then (getitem_key geometry ''coordinates'')
       (\<lambda>coordinates.
          and_then (getitem_0 coordinates)
            (\<lambda>coords.
               and_then (getitem_0 coords)
                 (\<lambda>first_coord.
                    and_then (py_len first_coord)
                      (\<lambda>n.
                         if n > 2 then Inr (JBool True)
                         else if check_all_coordinates then
                           and_then (iter_items coords)
                             (\<lambda>rings.
                                and_then (any_ring_longer_than_2 rings)
                                  (\<lambda>found. Inr (if found then JBool True else JNull)))
                         else Inr (JBool False)))))"

text \<open>\<^verbatim>\<open>check_crosses_antimeridian\<close>: the body is \<^verbatim>\<open>pass\<close>, so the call returns \<^verbatim>\<open>None\<close>
  whatever the polygon is.\<close>

definition check_crosses_antimeridian :: "'polygon \<Rightarrow> py_error + json" where
  "check_crosses_antimeridian geom = Inr JNull"

text \<open>
  \<^verbatim>\<open>check_holes\<close> and \<^verbatim>\<open>check_self_intersection\<close> read two attributes of a \<^verbatim>\<open>shapely\<close>
  polygon, an object of a library outside the repository; the polygon is represented by
  these two attributes.
\<close>

record 'ring shapely_polygon =
  interiors :: "'ring list"
  is_valid :: bool

definition check_holes :: "'ring shapely_polygon \<Rightarrow> py_error + json" where
  "check_holes geom = Inr (JBool (case interiors geom of [] \<Rightarrow> False | ring # rest \<Rightarrow> True))"

definition check_self_intersection :: "'ring shapely_polygon \<Rightarrow> py_error + json" where
  "check_self_intersection geom = Inr (JBool (\<not> is_valid geom))"

section \<open>Notions used in the statements\<close>


text \<open>
  Coordinates that are well formed for nesting depth \<open>k\<close>: arrays nested \<open>k\<close> deep around
  positions, a position being an array of two or three numbers (depth 0 is a Point's
  coordinates, 1 a LineString's, 2 a Polygon's, 3 a MultiPolygon's). \<open>numbers k v\<close> counts
  the numbers of all positions of such a value.
\<close>

fun position_ok :: "json \<Rightarrow> bool" where
  "position_ok (JArr cs) = (2 \<le> length cs \<and> length cs \<le> 3 \<and> list_all is_int_or_float cs)"
| "position_ok v = False"

fun nested :: "nat \<Rightarrow> json \<Rightarrow> bool" where
  "nested 0 v = position_ok v"
| "nested (Suc k) (JArr vs) = list_all (nested k) vs"
| "nested (Suc k) v = False"

fun numbers :: "nat \<Rightarrow> json \<Rightarrow> nat" where
  "numbers 0 (JArr cs) = length cs"
| "numbers (Suc k) (JArr vs) = sum_list (map (numbers k) vs)"
| "numbers k v = 0"

section \<open>Every walk returns, and only extends the report\<close>



















lemma add_error_at_Some:
  "line_map st = Some m \<Longrightarrow>
     add_error_at msg path st = Inr (add_error msg (map_option Suc (m path)) st)"
  by (simp add: add_error_at_def get_line_number_def and_then_def split: option.split)

























section \<open>Running the validator on concrete documents\<close>

lemma str_nat_0: "str_nat 0 = ''0''"
  by code_simp

lemma str_nat_1: "str_nat (Suc 0) = ''1''"
  by code_simp

lemmas lint_unfold =
  lint_report_def lint_def validate_geojson_root_def validate_feature_collection_def
  validate_feature_def validate_geometry.simps validate_position_def
  is_invalid_type_member_def is_invalid_property_def
  add_error_at_def get_line_number_def add_error_def and_then_def dict_get_def
  GEOJSON_TYPES_def GEOMETRY_TYPES_def GeoJsonLint_def str_nat_0 str_nat_1

section \<open>The position checks\<close>

text \<open>
  C4. The two leaf checks of the position validator (length 2 or 3, every element a
  number) are evaluated one after the other and neither depends on the other's outcome:
  on any list, each records its message exactly when its own condition fails. Linting
  \<^verbatim>\<open>{"type": "Point", "coordinates": [1]}\<close> with a fresh validator returns exactly one
  entry, the length message; linting \<^verbatim>\<open>{"type": "Point", "coordinates": ["a"]}\<close> returns
  the length message and the number message, in this order. Both are recorded at the
  line of \<^verbatim>\<open>/coordinates\<close>, with no feature index.
\<close>

theorem C4_position_checks_independent:
  "lint_report m (JObj [(''type'', JStr ''Point''), (''coordinates'', JArr [JInt 1])])
       (GeoJsonLint crs)
     = Inr [(''Coordinate position must have exactly 2 or 3 values'',
             \<lparr>lines = [map_option Suc (m ''/coordinates'')], features = [None]\<rparr>)]
   \<and> lint_report m (JObj [(''type'', JStr ''Point''), (''coordinates'', JArr [JStr ''a''])])
       (GeoJsonLint crs)
     = Inr [(''Coordinate position must have exactly 2 or 3 values'',
             \<lparr>lines = [map_option Suc (m ''/coordinates'')], features = [None]\<rparr>),
            (''Each element in a coordinate position must be a number'',
             \<lparr>lines = [map_option Suc (m ''/coordinates'')], features = [None]\<rparr>)]
   \<and> validate_position (JArr cs) path (st\<lparr>line_map := Some m\<rparr>)
     = Inr ((if \<not> list_all is_int_or_float cs
             then add_error ''Each element in a coordinate position must be a number''
                    (map_option Suc (m path))
             else id)
            ((if length cs < 2 \<or> length cs > 3
              then add_error ''Coordinate position must have exactly 2 or 3 values''
                     (map_option Suc (m path))
              else id)
             (st\<lparr>line_map := Some m\<rparr>)))"
proof (intro conjI)
  show "lint_report m (JObj [(''type'', JStr ''Point''), (''coordinates'', JArr [JInt 1])])
       (GeoJsonLint crs)
     = Inr [(''Coordinate position must have exactly 2 or 3 values'',
             \<lparr>lines = [map_option Suc (m ''/coordinates'')], features = [None]\<rparr>)]"
    by (simp add: lint_unfold split: option.split)
  show "lint_report m (JObj [(''type'', JStr ''Point''), (''coordinates'', JArr [JStr ''a''])])
       (GeoJsonLint crs)
     = Inr [(''Coordinate position must have exactly 2 or 3 values'',
             \<lparr>lines = [map_option Suc (m ''/coordinates'')], features = [None]\<rparr>),
            (''Each element in a coordinate position must be a number'',
             \<lparr>lines = [map_option Suc (m ''/coordinates'')], features = [None]\<rparr>)]"
    by (simp add: lint_unfold split: option.split)
  show "validate_position (JArr cs) path (st\<lparr>line_map := Some m\<rparr>)
     = Inr ((if \<not> list_all is_int_or_float cs
             then add_error ''Each element in a coordinate position must be a number''
                    (map_option Suc (m path))
             else id)
            ((if length cs < 2 \<or> length cs > 3
              then add_error ''Coordinate position must have exactly 2 or 3 values''
                     (map_option Suc (m path))
              else id)
             (st\<lparr>line_map := Some m\<rparr>)))"
    by (simp add: validate_position_def add_error_at_Some and_then_def add_error_def)
qed

text \<open>
  C10. A JSON boolean passes the numeric check of the position validator, because a
  Python \<^verbatim>\<open>bool\<close> is an \<^verbatim>\<open>int\<close>: linting \<^verbatim>\<open>{"type": "Point", "coordinates": [true, false]}\<close>
  with a fresh validator returns the empty report.
\<close>

theorem C10_boolean_coordinates_accepted:
  "is_int_or_float (JBool b)
   \<and> lint_report m
       (JObj [(''type'', JStr ''Point''), (''coordinates'', JArr [JBool True, JBool False])])
       (GeoJsonLint crs)
     = Inr []"
  by (simp add: lint_unfold split: option.split)

section \<open>Features of a collection\<close>

text \<open>
  C5. Linting the FeatureCollection whose features are
  \<^verbatim>\<open>[{"type": "Feature", "properties": null, "geometry": null}, 42]\<close> with a fresh validator
  returns exactly one entry, \<^verbatim>\<open>Every feature must be a dictionary/object.\<close>, recorded once
  at the line of \<^verbatim>\<open>/features/1\<close> with feature index 1; the feature at index 0 adds
  nothing. In general the member gate accepts an explicit \<^verbatim>\<open>null\<close> for the members
  \<^verbatim>\<open>geometry\<close> and \<^verbatim>\<open>properties\<close> of any object without recording anything.
\<close>

theorem C5_null_members_and_non_object_feature:
  "lint_report m
       (JObj [(''type'', JStr ''FeatureCollection''),
              (''features'',
                 JArr [JObj [(''type'', JStr ''Feature''), (''properties'', JNull),
                             (''geometry'', JNull)],
                       JInt 42])])
       (GeoJsonLint crs)
     = Inr [(''Every feature must be a dictionary/object.'',
             \<lparr>lines = [map_option Suc (m ''/features/1'')], features = [Some 1]\<rparr>)]
   \<and> (name \<in> set [''geometry'', ''properties''] \<and> map_of obj name = Some JNull
        \<longrightarrow> is_invalid_property obj name ''object'' path st = Inr (False, st))"
proof (intro conjI impI)
  show "lint_report m
       (JObj [(''type'', JStr ''FeatureCollection''),
              (''features'',
                 JArr [JObj [(''type'', JStr ''Feature''), (''properties'', JNull),
                             (''geometry'', JNull)],
                       JInt 42])])
       (GeoJsonLint crs)
     = Inr [(''Every feature must be a dictionary/object.'',
             \<lparr>lines = [map_option Suc (m ''/features/1'')], features = [Some 1]\<rparr>)]"
    by (simp add: lint_unfold split: option.split)
next
  assume "name \<in> set [''geometry'', ''properties''] \<and> map_of obj name = Some JNull"
  then show "is_invalid_property obj name ''object'' path st = Inr (False, st)"
    by (auto simp: is_invalid_property_def)
qed

theorem C5_witness:
  "map_of [(''type'', JStr ''Feature''), (''geometry'', JNull)] ''geometry'' = Some JNull
   \<and> is_invalid_property [(''type'', JStr ''Feature''), (''geometry'', JNull)] ''geometry''
       ''object'' ''/geometry'' (GeoJsonLint False)
     = Inr (False, GeoJsonLint False)"
  using C5_null_members_and_non_object_feature
    [where name = "''geometry''"
       and obj = "[(''type'', JStr ''Feature''), (''geometry'', JNull)]"
       and path = "''/geometry''" and st = "GeoJsonLint False"]
  by simp

section \<open>The type-membership gate\<close>







section \<open>Gate failures and descent\<close>





text \<open>
  C3. The list that the geometry validator's gate is given, \<^verbatim>\<open>GEOMETRY_TYPES\<close>, holds
  \<^verbatim>\<open>FeatureCollection\<close> and \<^verbatim>\<open>Feature\<close> besides the seven geometry types. A geometry whose
  \<^verbatim>\<open>type\<close> is \<^verbatim>\<open>Feature\<close> therefore passes the gate: no invalid-type error is recorded, the
  walk goes on to the \<^verbatim>\<open>coordinates\<close> member and reports that it is required; with a
  \<^verbatim>\<open>coordinates\<close> array present, a geometry of type \<^verbatim>\<open>FeatureCollection\<close> is accepted
  without any error.
\<close>

theorem C3_geometry_gate_accepts_feature_types:
  "''Feature'' \<in> set GEOMETRY_TYPES \<and> ''FeatureCollection'' \<in> set GEOMETRY_TYPES
   \<and> length GEOMETRY_TYPES = 9
   \<and> lint_report m
       (JObj [(''type'', JStr ''Feature''), (''properties'', JNull),
              (''geometry'', JObj [(''type'', JStr ''Feature'')])])
       (GeoJsonLint crs)
     = Inr [([CHR 0x22] @ ''coordinates'' @ [CHR 0x22] @ '' member required'',
             \<lparr>lines = [map_option Suc (m ''/geometry'')], features = [None]\<rparr>)]
   \<and> lint_report m
       (JObj [(''type'', JStr ''Feature''), (''properties'', JNull),
              (''geometry'',
                 JObj [(''type'', JStr ''FeatureCollection''), (''coordinates'', JArr [])])])
       (GeoJsonLint crs)
     = Inr []"
  by (simp add: lint_unfold split: option.split)

text \<open>
  C8. The feature validator hands the geometry to the geometry validator only when the
  value is true in Python, and an empty object is false: linting the feature
  \<^verbatim>\<open>{"type": "Feature", "properties": null, "geometry": {}}\<close> returns the empty report,
  the missing \<^verbatim>\<open>type\<close> of the geometry is not reported. The same empty object as a member
  of a GeometryCollection is reported.
\<close>

theorem C8_empty_geometry_object_not_validated:
  "lint_report m
       (JObj [(''type'', JStr ''Feature''), (''properties'', JNull), (''geometry'', JObj [])])
       (GeoJsonLint crs)
     = Inr []
   \<and> lint_report m
       (JObj [(''type'', JStr ''GeometryCollection''), (''geometries'', JArr [JObj []])])
       (GeoJsonLint crs)
     = Inr [(''Missing 'type' member'',
             \<lparr>lines = [map_option Suc (m ''/geometries/0'')], features = [None]\<rparr>)]"
  by (simp add: lint_unfold split: option.split)

section \<open>Reusing a validator\<close>




section \<open>Coordinates nested too shallowly\<close>

lemma line_map_add_error: "line_map (add_error msg line st) = line_map st"
  by (simp add: add_error_def)

lemma line_map_funpow_add_error: "line_map ((add_error msg line ^^ n) st) = line_map st"
  by (induction n) (simp_all add: line_map_add_error)

lemma for_enumerate_repeat:
  assumes body: "\<And>i x s. x \<in> set xs \<Longrightarrow> line_map s = Some m \<Longrightarrow>
      body i x s = Inr ((add_error msg line ^^ n x) s)"
    and lm: "line_map st = Some m"
  shows "for_enumerate body xs idx st = Inr ((add_error msg line ^^ sum_list (map n xs)) st)"
  using body lm
proof (induction xs arbitrary: idx st)
  case Nil
  show ?case by simp
next
  case (Cons x xs)
  let ?st1 = "(add_error msg line ^^ n x) st"
  have first: "body idx x st = Inr ?st1"
    by (rule Cons.prems(1)) (simp_all add: Cons.prems(2))
  have lm1: "line_map ?st1 = Some m"
    by (simp add: line_map_funpow_add_error Cons.prems(2))
  have "for_enumerate body xs (Suc idx) ?st1 = Inr ((add_error msg line ^^ sum_list (map n xs)) ?st1)"
  proof (rule Cons.IH[OF _ lm1])
    fix i y and s :: lint_state
    assume "y \<in> set xs" "line_map s = Some m"
    then show "body i y s = Inr ((add_error msg line ^^ n y) s)"
      by (intro Cons.prems(1)) simp_all
  qed
  then show ?case
    by (simp add: first and_then_def funpow_add add.commute[of "n x"])
qed

lemma number_too_deep:
  assumes num: "is_int_or_float v" and lm: "line_map st = Some m"
  shows "validate_position_array v j path st =
     Inr (add_error (if j = 0 then ''Coordinate position must be an array''
                     else ''Coordinates must be an array'')
            (map_option Suc (m path)) st)"
proof (cases j)
  case 0
  with num lm show ?thesis
    by (cases v) (simp_all add: validate_position_def add_error_at_Some)
next
  case (Suc j')
  with num lm show ?thesis
    by (cases v) (simp_all add: add_error_at_Some)
qed

lemma nested_too_deep:
  "nested k v \<Longrightarrow> line_map st = Some m \<Longrightarrow>
   validate_position_array v (Suc k + j) path st =
     Inr ((add_error (if j = 0 then ''Coordinate position must be an array''
                      else ''Coordinates must be an array'')
             (map_option Suc (m path)) ^^ numbers k v) st)"
proof (induction k arbitrary: v st)
  case 0
  then obtain cs where v: "v = JArr cs" and nums: "list_all is_int_or_float cs"
    by (cases v) simp_all
  have "for_enumerate (\<lambda>idx p. validate_position_array p j path) cs 0 st =
      Inr ((add_error (if j = 0 then ''Coordinate position must be an array''
                       else ''Coordinates must be an array'')
              (map_option Suc (m path)) ^^ sum_list (map (\<lambda>x. 1) cs)) st)"
  proof (rule for_enumerate_repeat[where m = m, OF _ "0.prems"(2)])
    fix i x and s :: lint_state
    assume "x \<in> set cs" and lms: "line_map s = Some m"
    with nums have "is_int_or_float x"
      by (simp add: list_all_iff)
    then show "validate_position_array x j path s =
        Inr ((add_error (if j = 0 then ''Coordinate position must be an array''
                         else ''Coordinates must be an array'')
                (map_option Suc (m path)) ^^ 1) s)"
      using lms by (simp add: number_too_deep)
  qed
  then show ?case
    by (simp add: v sum_list_triv)
next
  case (Suc k)
  then obtain vs where v: "v = JArr vs" and all: "list_all (nested k) vs"
    by (cases v) simp_all
  have "for_enumerate (\<lambda>idx p. validate_position_array p (Suc k + j) path) vs 0 st =
      Inr ((add_error (if j = 0 then ''Coordinate position must be an array''
                       else ''Coordinates must be an array'')
              (map_option Suc (m path)) ^^ sum_list (map (numbers k) vs)) st)"
  proof (rule for_enumerate_repeat[where m = m, OF _ Suc.prems(2)])
    fix i x and s :: lint_state
    assume "x \<in> set vs" and lms: "line_map s = Some m"
    with all have "nested k x"
      by (simp add: list_all_iff)
    then show "validate_position_array x (Suc k + j) path s =
        Inr ((add_error (if j = 0 then ''Coordinate position must be an array''
                         else ''Coordinates must be an array'')
                (map_option Suc (m path)) ^^ numbers k x) s)"
      using lms by (rule Suc.IH)
  qed
  then show ?case
    by (simp add: v)
qed

lemma errors_add_error:
  "errors (add_error msg line st) = add_entry msg line (feature_idx st) (errors st)"
  by (simp add: add_error_def)

lemma feature_idx_add_error: "feature_idx (add_error msg line st) = feature_idx st"
  by (simp add: add_error_def)

lemma feature_idx_funpow_add_error:
  "feature_idx ((add_error msg line ^^ n) st) = feature_idx st"
  by (induction n) (simp_all add: feature_idx_add_error)

lemma errors_funpow_add_error:
  "errors st = [] \<Longrightarrow>
   errors ((add_error msg line ^^ n) st) =
     (if n = 0 then []
      else [(msg, \<lparr>lines = replicate n line, features = replicate n (feature_idx st)\<rparr>)])"
proof (induction n)
  case 0
  then show ?case by simp
next
  case (Suc n)
  then show ?case
    by (simp add: errors_add_error feature_idx_funpow_add_error replicate_append_same)
qed

lemma nested_is_list: "nested k v \<Longrightarrow> is_list v"
  by (cases k; cases v) simp_all

text \<open>
  C6, as stated, fails. Nesting depth 2 is the depth of a Polygon's coordinates, arrays
  nested two deep around positions. Given to a MultiPolygon, whose depth is 3, every
  array that the recursion expects is there (the positions are arrays themselves), and
  the recursion reaches the numbers at depth 0, where the leaf check rejects them:
  linting the MultiPolygon with coordinates \<^verbatim>\<open>[[[0, 0]]]\<close> returns
  \<^verbatim>\<open>Coordinate position must be an array\<close>, once per number, and no
  \<^verbatim>\<open>Coordinates must be an array\<close>.
\<close>

theorem C6_counterexample:
  "lint_report
     (map_of [([], 0), (''/coordinates'', 1), (''/coordinates/0'', 2), (''/coordinates/0/0'', 3),
              (''/coordinates/0/0/0'', 4), (''/coordinates/0/0/1'', 5), (''/type'', 9)])
     (JObj [(''type'', JStr ''MultiPolygon''),
            (''coordinates'', JArr [JArr [JArr [JInt 0, JInt 0]]])])
     (GeoJsonLint False)
   = Inr [(''Coordinate position must be an array'',
           \<lparr>lines = [Some 2, Some 2], features = [None, None]\<rparr>)]"
  by (simp add: lint_unfold eval_nat_numeral)

text \<open>
  C6, amended. Linting a MultiPolygon whose coordinates are well formed for a nesting
  depth \<open>k\<close> below the required 3 returns one entry, recorded once for every number of the
  coordinates at the line of \<^verbatim>\<open>/coordinates\<close> (and the empty report when the coordinates
  hold no position). For depth 2 the entry is \<^verbatim>\<open>Coordinate position must be an array\<close>; for
  depth 1 or 0 (a LineString's or a Point's coordinates), where a number is met while the
  remaining depth is still positive, it is \<^verbatim>\<open>Coordinates must be an array\<close>.
\<close>

theorem C6_multipolygon_shallow_coordinates:
  assumes "nested k v" and "k < 3"
  shows "lint_report m (JObj [(''type'', JStr ''MultiPolygon''), (''coordinates'', v)])
           (GeoJsonLint crs)
         = Inr (if numbers k v = 0 then []
                else [(if k = 2 then ''Coordinate position must be an array''
                       else ''Coordinates must be an array'',
                       \<lparr>lines = replicate (numbers k v) (map_option Suc (m ''/coordinates'')),
                          features = replicate (numbers k v) None\<rparr>)])"
proof -
  let ?st = "(GeoJsonLint crs)\<lparr>line_map := Some m\<rparr>"
  have lm: "line_map ?st = Some m" and empty: "errors ?st = []" and fi: "feature_idx ?st = None"
    by (simp_all add: GeoJsonLint_def)
  from \<open>k < 3\<close> have depth: "3 = Suc k + (2 - k)"
    by simp
  have walk: "validate_position_array v 3 ''/coordinates'' ?st =
      Inr ((add_error (if 2 - k = 0 then ''Coordinate position must be an array''
                       else ''Coordinates must be an array'')
              (map_option Suc (m ''/coordinates'')) ^^ numbers k v) ?st)"
    by (subst depth) (rule nested_too_deep[OF assms(1) lm])
  have k2: "(2 \<le> k) = (k = 2)"
    using \<open>k < 3\<close> by auto
  obtain vs where v: "v = JArr vs"
    using nested_is_list[OF assms(1)] by (cases v) simp_all
  have "lint m (JObj [(''type'', JStr ''MultiPolygon''), (''coordinates'', v)]) (GeoJsonLint crs)
      = validate_position_array v 3 ''/coordinates'' ?st"
    unfolding v
    by (simp add: lint_def validate_geojson_root_def validate_geometry.simps
        is_invalid_type_member_def is_invalid_property_def and_then_def dict_get_def
        GEOJSON_TYPES_def GEOMETRY_TYPES_def del: validate_position_array.simps)
  then show ?thesis
    by (simp add: lint_report_def walk k2 errors_funpow_add_error[OF empty] fi
        del: validate_position_array.simps)
qed

theorem C6_witness:
  "nested 1 (JArr [JArr [JInt 1, JInt 2]]) \<and> (1 :: nat) < 3
   \<and> lint_report (map_of [([], 0), (''/coordinates'', 1)])
       (JObj [(''type'', JStr ''MultiPolygon''),
              (''coordinates'', JArr [JArr [JInt 1, JInt 2]])])
       (GeoJsonLint False)
     = Inr [(''Coordinates must be an array'',
             \<lparr>lines = [Some 2, Some 2], features = [None, None]\<rparr>)]"
  using C6_multipolygon_shallow_coordinates
    [where k = 1 and v = "JArr [JArr [JInt 1, JInt 2]]"
       and m = "map_of [([], 0), (''/coordinates'', 1)]" and crs = False]
  by (simp add: eval_nat_numeral)

section \<open>The geometry checks on a valid geometry\<close>

lemma shapely_checks_return_boolean:
  "(\<exists>b. check_holes geom = Inr (JBool b)) \<and> (\<exists>b. check_self_intersection geom = Inr (JBool b))"
  by (simp add: check_holes_def check_self_intersection_def)

text \<open>
  C9. The Polygon below, with integer coordinates, is structurally valid: the validator
  returns the empty report for it. On this geometry \<^verbatim>\<open>check_excessive_coordinate_precision\<close>
  raises \<^verbatim>\<open>IndexError\<close> (the text of an integer has no decimal point, so its split has no
  second piece) and \<^verbatim>\<open>check_more_than_2d_coordinates\<close> with \<^verbatim>\<open>check_all_coordinates\<close>
  raises \<^verbatim>\<open>TypeError\<close> (it takes the length of a number); \<^verbatim>\<open>check_crosses_antimeridian\<close>
  returns \<^verbatim>\<open>None\<close>, which is no boolean, for every argument.
\<close>

theorem C9_checks_raise_or_return_none:
  "lint_report m
       (JObj [(''type'', JStr ''Polygon''),
              (''coordinates'',
                 JArr [JArr [JArr [JInt 0, JInt 0], JArr [JInt 1, JInt 0], JArr [JInt 1, JInt 1],
                             JArr [JInt 0, JInt 0]]])])
       (GeoJsonLint crs)
     = Inr []
   \<and> check_excessive_coordinate_precision
       (JObj [(''type'', JStr ''Polygon''),
              (''coordinates'',
                 JArr [JArr [JArr [JInt 0, JInt 0], JArr [JInt 1, JInt 0], JArr [JInt 1, JInt 1],
                             JArr [JInt 0, JInt 0]]])])
     = Inl IndexError
   \<and> check_more_than_2d_coordinates
       (JObj [(''type'', JStr ''Polygon''),
              (''coordinates'',
                 JArr [JArr [JArr [JInt 0, JInt 0], JArr [JInt 1, JInt 0], JArr [JInt 1, JInt 1],
                             JArr [JInt 0, JInt 0]]])])
       True
     = Inl TypeError
   \<and> check_crosses_antimeridian geom = Inr JNull"
proof (intro conjI)
  show "lint_report m
       (JObj [(''type'', JStr ''Polygon''),
              (''coordinates'',
                 JArr [JArr [JArr [JInt 0, JInt 0], JArr [JInt 1, JInt 0], JArr [JInt 1, JInt 1],
                             JArr [JInt 0, JInt 0]]])])
       (GeoJsonLint crs)
     = Inr []"
    by (simp add: lint_unfold eval_nat_numeral)
  show "check_excessive_coordinate_precision
       (JObj [(''type'', JStr ''Polygon''),
              (''coordinates'',
                 JArr [JArr [JArr [JInt 0, JInt 0], JArr [JInt 1, JInt 0], JArr [JInt 1, JInt 1],
                             JArr [JInt 0, JInt 0]]])])
     = Inl IndexError"
    by (simp add: check_excessive_coordinate_precision_def and_then_def py_str_def str_int_def
        str_nat_0)
  show "check_more_than_2d_coordinates
       (JObj [(''type'', JStr ''Polygon''),
              (''coordinates'',
                 JArr [JArr [JArr [JInt 0, JInt 0], JArr [JInt 1, JInt 0], JArr [JInt 1, JInt 1],
                             JArr [JInt 0, JInt 0]]])])
       True
     = Inl TypeError"
    by (simp add: check_more_than_2d_coordinates_def and_then_def)
  show "check_crosses_antimeridian geom = Inr JNull"
    by (simp add: check_crosses_antimeridian_def)
qed

end
